theory Spec2Isabelle
  imports Complex_Main "HOL-Library.Word"
begin

section \<open>JavaScript numbers and typed arrays\<close>

text \<open>
  The pixel pipeline of the editor works on \<open>Uint8ClampedArray\<close> buffers and on
  JavaScript numbers. A byte of a typed array is an \<open>8 word\<close>. A JavaScript number is
  a finite value, one of the two infinities, or NaN; finite doubles are idealised as
  reals (the rounding of IEEE-754 arithmetic is not part of the model), while NaN and
  the infinities are kept, because the control flow of the code depends on them
  (\<open>undefined\<close> operands, \<open>Infinity\<close> as a starting minimum, division by
  zero). Signed zeros are not distinguished.
\<close>

type_synonym byte = "8 word"

datatype jsnum = Num real | PInf | NInf | NaN

datatype error =
    ReferenceError string
  | TypeError string
  | IndexSizeError
  | NotInitialized

text \<open>\<open>ToNumber\<close> of a value that may be \<open>undefined\<close> (\<open>None\<close>).\<close>

fun toNumber :: "real option \<Rightarrow> jsnum" where
  "toNumber None = NaN"
| "toNumber (Some v) = Num v"

fun js_neg :: "jsnum \<Rightarrow> jsnum" where
  "js_neg (Num a) = Num (- a)"
| "js_neg PInf = NInf"
| "js_neg NInf = PInf"
| "js_neg NaN = NaN"

fun js_add :: "jsnum \<Rightarrow> jsnum \<Rightarrow> jsnum" where
  "js_add (Num a) (Num b) = Num (a + b)"
| "js_add NaN _ = NaN"
| "js_add _ NaN = NaN"
| "js_add PInf NInf = NaN"
| "js_add NInf PInf = NaN"
| "js_add PInf _ = PInf"
| "js_add _ PInf = PInf"
| "js_add NInf _ = NInf"
| "js_add _ NInf = NInf"

definition js_sub :: "jsnum \<Rightarrow> jsnum \<Rightarrow> jsnum" where
  "js_sub a b = js_add a (js_neg b)"

text \<open>The sign of an infinity scaled by a finite factor; \<open>Infinity * 0\<close> is NaN.\<close>

definition js_inf_scaled :: "bool \<Rightarrow> real \<Rightarrow> jsnum" where
  "js_inf_scaled positive b =
     (if b = 0 then NaN else if (0 < b) = positive then PInf else NInf)"

fun js_mul :: "jsnum \<Rightarrow> jsnum \<Rightarrow> jsnum" where
  "js_mul (Num a) (Num b) = Num (a * b)"
| "js_mul NaN _ = NaN"
| "js_mul _ NaN = NaN"
| "js_mul PInf (Num b) = js_inf_scaled True b"
| "js_mul NInf (Num b) = js_inf_scaled False b"
| "js_mul (Num a) PInf = js_inf_scaled True a"
| "js_mul (Num a) NInf = js_inf_scaled False a"
| "js_mul PInf PInf = PInf"
| "js_mul NInf NInf = PInf"
| "js_mul PInf NInf = NInf"
| "js_mul NInf PInf = NInf"

fun js_div :: "jsnum \<Rightarrow> jsnum \<Rightarrow> jsnum" where
  "js_div (Num a) (Num b) =
     (if b = 0 then (if a = 0 then NaN else if 0 < a then PInf else NInf)
      else Num (a / b))"
| "js_div NaN _ = NaN"
| "js_div _ NaN = NaN"
| "js_div (Num a) PInf = Num 0"
| "js_div (Num a) NInf = Num 0"
| "js_div PInf (Num b) = (if 0 \<le> b then PInf else NInf)"
| "js_div NInf (Num b) = (if 0 \<le> b then NInf else PInf)"
| "js_div PInf PInf = NaN"
| "js_div PInf NInf = NaN"
| "js_div NInf PInf = NaN"
| "js_div NInf NInf = NaN"

text \<open>\<open>a < b\<close> on numbers: false as soon as one side is NaN.\<close>

fun js_less :: "jsnum \<Rightarrow> jsnum \<Rightarrow> bool" where
  "js_less (Num a) (Num b) = (a < b)"
| "js_less NaN _ = False"
| "js_less _ NaN = False"
| "js_less NInf NInf = False"
| "js_less NInf _ = True"
| "js_less _ NInf = False"
| "js_less PInf _ = False"
| "js_less _ PInf = True"

text \<open>\<open>Math.min\<close> and \<open>Math.max\<close> of two arguments: NaN if either is NaN.\<close>

fun js_min :: "jsnum \<Rightarrow> jsnum \<Rightarrow> jsnum" where
  "js_min NaN _ = NaN"
| "js_min _ NaN = NaN"
| "js_min a b = (if js_less b a then b else a)"

fun js_max :: "jsnum \<Rightarrow> jsnum \<Rightarrow> jsnum" where
  "js_max NaN _ = NaN"
| "js_max _ NaN = NaN"
| "js_max a b = (if js_less a b then b else a)"

text \<open>
  Storing a number into a \<open>Uint8ClampedArray\<close> (\<open>ToUint8Clamp\<close>): NaN becomes 0,
  the value is clamped to \<open>[0, 255]\<close> and rounded to the nearest integer, ties to
  even.
\<close>

definition roundHalfEven :: "real \<Rightarrow> int" where
  "roundHalfEven x =
     (let f = \<lfloor>x\<rfloor> in
      if real_of_int f + 1 / 2 < x then f + 1
      else if x < real_of_int f + 1 / 2 then f
      else if even f then f else f + 1)"

fun toUint8Clamp :: "jsnum \<Rightarrow> byte" where
  "toUint8Clamp NaN = 0"
| "toUint8Clamp PInf = 255"
| "toUint8Clamp NInf = 0"
| "toUint8Clamp (Num x) =
     (if x \<le> 0 then 0 else if 255 \<le> x then 255 else word_of_int (roundHalfEven x))"

text \<open>The numeric value of a byte read from a typed array.\<close>

definition byteval :: "byte \<Rightarrow> real" where
  "byteval w = real (unat w)"

text \<open>
  Reading index \<open>i\<close> of a typed array gives \<open>undefined\<close> outside the array, and a
  write outside the array is ignored. Indices computed by the code may be negative.
\<close>

definition rd :: "byte list \<Rightarrow> int \<Rightarrow> real option" where
  "rd xs i = (if 0 \<le> i \<and> i < int (length xs) then Some (byteval (xs ! nat i)) else None)"

definition wr :: "byte list \<Rightarrow> int \<Rightarrow> jsnum \<Rightarrow> byte list" where
  "wr xs i v = (if 0 \<le> i \<and> i < int (length xs) then xs[nat i := toUint8Clamp v] else xs)"

text \<open>\<open>Math.round\<close>: the nearest integer, ties towards plus infinity.\<close>

definition math_round :: "real \<Rightarrow> int" where
  "math_round x = \<lfloor>x + 1 / 2\<rfloor>"

text \<open>The remainder operator \<open>%\<close> on finite numbers: the quotient is truncated towards zero.\<close>

definition js_rem :: "real \<Rightarrow> real \<Rightarrow> real" where
  "js_rem x y = x - y * real_of_int (if 0 \<le> x / y then \<lfloor>x / y\<rfloor> else \<lceil>x / y\<rceil>)"

section \<open>Images\<close>

text \<open>
  An \<open>ImageData\<close>: width, height and the flat RGBA bytes, row by row, four bytes a pixel.
\<close>

record ImageData =
  width :: nat
  height :: nat
  data :: "byte list"

definition valid :: "ImageData \<Rightarrow> bool" where
  "valid img \<longleftrightarrow> 0 < width img \<and> 0 < height img \<and> length (data img) = width img * height img * 4"

section \<open>The VITA shade catalog and the nearest shade\<close>

record VITAShade =
  shade_r :: real
  shade_g :: real
  shade_b :: real
  name :: string

definition mkShade :: "real \<Rightarrow> real \<Rightarrow> real \<Rightarrow> string \<Rightarrow> VITAShade" where
  "mkShade r g b n = \<lparr>shade_r = r, shade_g = g, shade_b = b, name = n\<rparr>"

text \<open>
  \<open>loadVITAShades\<close>: the object literal of the source, as its entries in insertion
  order (the order \<open>Object.entries\<close> iterates in). The source writes the fourth key
  as a bare \<open>A3.5\<close>; it is the key \<open>'A3.5'\<close> that \<open>shadeOrder\<close> looks up.
\<close>

definition loadVITAShades :: "(string \<times> VITAShade) list" where
  "loadVITAShades =
    [(''A1'', mkShade 255 248 240 ''A1 - Lightest''),
     (''A2'', mkShade 255 245 230 ''A2 - Light''),
     (''A3'', mkShade 255 240 220 ''A3 - Medium''),
     (''A3.5'', mkShade 255 235 210 ''A3.5 - Medium Dark''),
     (''A4'', mkShade 255 230 200 ''A4 - Dark''),
     (''B1'', mkShade 255 248 235 ''B1 - Lightest''),
     (''B2'', mkShade 255 243 225 ''B2 - Light''),
     (''B3'', mkShade 255 238 215 ''B3 - Medium''),
     (''B4'', mkShade 255 233 205 ''B4 - Dark''),
     (''C1'', mkShade 255 245 220 ''C1 - Lightest''),
     (''C2'', mkShade 255 240 210 ''C2 - Light''),
     (''C3'', mkShade 255 235 200 ''C3 - Medium''),
     (''C4'', mkShade 255 230 190 ''C4 - Dark''),
     (''D1'', mkShade 255 243 215 ''D1 - Lightest''),
     (''D2'', mkShade 255 238 205 ''D2 - Light''),
     (''D3'', mkShade 255 233 195 ''D3 - Medium''),
     (''D4'', mkShade 255 228 185 ''D4 - Dark'')]"

text \<open>The Euclidean distance in RGB that \<open>findClosestVITAShade\<close> computes.\<close>

definition shadeDistance :: "real \<Rightarrow> real \<Rightarrow> real \<Rightarrow> VITAShade \<Rightarrow> real" where
  "shadeDistance r g b shade =
     sqrt ((r - shade_r shade)\<^sup>2 + (g - shade_g shade)\<^sup>2 + (b - shade_b shade)\<^sup>2)"

text \<open>
  One iteration of the scan: the running minimum is replaced only by a strictly smaller
  distance, and the shade kept is the entry with its \<open>name\<close> replaced by the key.
\<close>

definition closestStep ::
  "real \<Rightarrow> real \<Rightarrow> real \<Rightarrow> jsnum \<times> VITAShade option \<Rightarrow> string \<times> VITAShade \<Rightarrow> jsnum \<times> VITAShade option"
where
  "closestStep r g b st entry =
     (let distance = shadeDistance r g b (snd entry) in
      if js_less (Num distance) (fst st)
      then (Num distance, Some ((snd entry)\<lparr>name := fst entry\<rparr>))
      else st)"

definition findClosestIn ::
  "(string \<times> VITAShade) list \<Rightarrow> real \<Rightarrow> real \<Rightarrow> real \<Rightarrow> VITAShade option" where
  "findClosestIn shades r g b = snd (foldl (closestStep r g b) (PInf, None) shades)"

definition findClosestVITAShade :: "real \<Rightarrow> real \<Rightarrow> real \<Rightarrow> VITAShade option" where
  "findClosestVITAShade r g b = findClosestIn loadVITAShades r g b"

section \<open>The enhancement engine\<close>

subsection \<open>Whitening\<close>

record HSV =
  hsv_h :: real
  hsv_s :: real
  hsv_v :: real

definition rgbToHsv :: "real \<Rightarrow> real \<Rightarrow> real \<Rightarrow> HSV" where
  "rgbToHsv r0 g0 b0 =
     (let r = r0 / 255; g = g0 / 255; b = b0 / 255;
          mx = max (max r g) b;
          mn = min (min r g) b;
          delta = mx - mn;
          s = (if mx = 0 then 0 else delta / mx);
          v = mx;
          h0 = (if delta \<noteq> 0
                then (if mx = r then js_rem ((g - b) / delta) 6
                      else if mx = g then (b - r) / delta + 2
                      else (r - g) / delta + 4)
                else 0);
          h1 = h0 * 60;
          h = (if h1 < 0 then h1 + 360 else h1)
      in \<lparr>hsv_h = h, hsv_s = s, hsv_v = v\<rparr>)"

definition isToothPixel :: "real \<Rightarrow> real \<Rightarrow> real \<Rightarrow> bool" where
  "isToothPixel r g b =
     (let hsv = rgbToHsv r g b in
      20 \<le> hsv_h hsv \<and> hsv_h hsv \<le> 80 \<and> hsv_s hsv \<le> 0.3 \<and> 0.7 \<le> hsv_v hsv \<and> hsv_v hsv \<le> 1.0)"

definition shadeOrder :: "string list" where
  "shadeOrder = [''A4'', ''A3.5'', ''A3'', ''A2'', ''A1'', ''B4'', ''B3'', ''B2'', ''B1'',
                 ''C4'', ''C3'', ''C2'', ''C1'', ''D4'', ''D3'', ''D2'', ''D1'']"

text \<open>\<open>Array.prototype.indexOf\<close>: the first position of the element, or \<open>-1\<close>.\<close>

fun indexOf :: "string list \<Rightarrow> string \<Rightarrow> int" where
  "indexOf [] s = -1"
| "indexOf (x # xs) s = (if x = s then 0 else (let i = indexOf xs s in if i = -1 then -1 else i + 1))"

text \<open>
  \<open>getTargetWhitenedShade\<close>. The result is \<open>None\<close> where the source's lookup
  \<open>this.vitaShades[shadeOrder[targetIndex]]\<close> is \<open>undefined\<close> (a target index below
  zero, reached with a negative factor).
\<close>

definition getTargetWhitenedShade :: "VITAShade \<Rightarrow> real \<Rightarrow> VITAShade option" where
  "getTargetWhitenedShade currentShade factor =
     (let currentIndex = indexOf shadeOrder (name currentShade) in
      if currentIndex = -1 then Some currentShade
      else
        (let stepsToMove = \<lfloor>factor * real_of_int (int (length shadeOrder) - currentIndex - 1)\<rfloor>;
             targetIndex = min (currentIndex + stepsToMove) (int (length shadeOrder) - 1)
         in if 0 \<le> targetIndex \<and> targetIndex < int (length shadeOrder)
            then map_of loadVITAShades (shadeOrder ! nat targetIndex)
            else None))"

definition interpolateColor ::
  "real \<Rightarrow> real \<Rightarrow> real \<Rightarrow> real \<Rightarrow> real \<Rightarrow> real \<Rightarrow> real \<Rightarrow> int \<times> int \<times> int" where
  "interpolateColor r1 g1 b1 r2 g2 b2 factor =
     (math_round (r1 + (r2 - r1) * factor),
      math_round (g1 + (g2 - g1) * factor),
      math_round (b1 + (b2 - b1) * factor))"

text \<open>
  The body of the whitening loop for one pixel \<open>(r, g, b)\<close>: the three bytes written
  back. Reading \<open>.r\<close> of a closest or target shade that is \<open>null\<close> or
  \<open>undefined\<close> throws a TypeError.
\<close>

definition whitenPixel :: "real \<Rightarrow> byte \<Rightarrow> byte \<Rightarrow> byte \<Rightarrow> error + byte \<times> byte \<times> byte" where
  "whitenPixel factor r g b =
     (if isToothPixel (byteval r) (byteval g) (byteval b) then
        (case findClosestVITAShade (byteval r) (byteval g) (byteval b) of
           None \<Rightarrow> Inl (TypeError ''closestShade'')
         | Some closestShade \<Rightarrow>
             (case getTargetWhitenedShade closestShade factor of
                None \<Rightarrow> Inl (TypeError ''targetShade'')
              | Some targetShade \<Rightarrow>
                  (case interpolateColor (byteval r) (byteval g) (byteval b)
                          (shade_r targetShade) (shade_g targetShade) (shade_b targetShade) factor of
                     (nr, ng, nb) \<Rightarrow>
                       Inr (toUint8Clamp (Num (real_of_int nr)),
                            toUint8Clamp (Num (real_of_int ng)),
                            toUint8Clamp (Num (real_of_int nb))))))
      else Inr (r, g, b))"

text \<open>
  The loop \<open>for (i = 0; i < data.length; i += 4)\<close> of \<open>applySmartWhitening\<close>, four
  bytes at a time. A last group of three bytes still has its three colour channels. A
  last group of one or two bytes reads \<open>undefined\<close> for a missing channel; the tooth
  test then compares NaN and fails, so nothing is written.
  (\<open>analyzeToothShades\<close>, called first, only counts shades and its result is not used.)
\<close>

fun whitenLoop :: "real \<Rightarrow> byte list \<Rightarrow> error + byte list" where
  "whitenLoop factor (r # g # b # a # rest) =
     (case whitenPixel factor r g b of
        Inl e \<Rightarrow> Inl e
      | Inr (nr, ng, nb) \<Rightarrow>
          (case whitenLoop factor rest of
             Inl e \<Rightarrow> Inl e
           | Inr rest' \<Rightarrow> Inr (nr # ng # nb # a # rest')))"
| "whitenLoop factor [r, g, b] =
     (case whitenPixel factor r g b of
        Inl e \<Rightarrow> Inl e
      | Inr (nr, ng, nb) \<Rightarrow> Inr [nr, ng, nb])"
| "whitenLoop factor xs = Inr xs"

definition applySmartWhitening :: "ImageData \<Rightarrow> real \<Rightarrow> error + ImageData" where
  "applySmartWhitening imageData strength =
     (let factor = strength / 100 in
      case whitenLoop factor (data imageData) of
        Inl e \<Rightarrow> Inl e
      | Inr d \<Rightarrow> Inr (imageData\<lparr>data := d\<rparr>))"

subsection \<open>Detection results, as the engine reads them\<close>

record Bounds =
  minX :: real
  maxX :: real
  minY :: real
  maxY :: real

record ToothBoundary =
  points :: "(int \<times> int) list"
  boundingBox :: Bounds
  center :: "real \<times> real"

record ToothResult =
  boundaries :: "ToothBoundary list"
  count :: nat
  confidence :: real

record GumLine =
  slope :: jsnum
  intercept :: jsnum
  sourcePoints :: "(nat \<times> nat) list"

record GumResult =
  line :: "GumLine option"
  gum_confidence :: real

record Rect =
  rect_x :: real
  rect_y :: real
  rect_width :: real
  rect_height :: real

record SmileZones =
  anterior :: Rect
  posterior_left :: Rect
  posterior_right :: Rect
  zone_confidence :: real

record Area =
  area_x :: nat
  area_y :: nat
  radius :: nat

record AreaResult =
  areas :: "Area list"
  area_confidence :: real

text \<open>
  The object that \<open>detectDentalFeatures\<close> builds and \<open>setDetectionResults\<close> hands
  to the engine. The engine tests \<open>detectionResults.teeth\<close> and
  \<open>detectionResults.gums\<close> for presence, so these two fields may be absent.
\<close>

record DetectionResults =
  teeth :: "ToothResult option"
  gums :: "GumResult option"
  smileZones :: SmileZones
  plaque :: AreaResult
  restorations :: AreaResult
  timestamp :: nat

subsection \<open>Adaptive contrast\<close>

datatype RegionType = Tooth | Gums | Background

record Region =
  rtype :: RegionType
  bounds :: Bounds
  contrastFactor :: real

definition estimateGumBounds :: "nat \<Rightarrow> nat \<Rightarrow> Bounds" where
  "estimateGumBounds w h =
     \<lparr>minX = real w * 0.1, maxX = real w * 0.9, minY = real h * 0.6, maxY = real h * 0.9\<rparr>"

definition createEnhancementRegions :: "DetectionResults option \<Rightarrow> nat \<Rightarrow> nat \<Rightarrow> Region list" where
  "createEnhancementRegions detectionResults w h =
     (case detectionResults of
        None \<Rightarrow> []
      | Some d \<Rightarrow>
          (case teeth d of
             None \<Rightarrow> []
           | Some t \<Rightarrow>
               map (\<lambda>tooth. \<lparr>rtype = Tooth, bounds = boundingBox tooth, contrastFactor = 1.2\<rparr>)
                   (boundaries t)))
     @ (case detectionResults of
          None \<Rightarrow> []
        | Some d \<Rightarrow>
            (case gums d of
               None \<Rightarrow> []
             | Some _ \<Rightarrow>
                 [\<lparr>rtype = Gums, bounds = estimateGumBounds w h, contrastFactor = 1.1\<rparr>]))
     @ [\<lparr>rtype = Background,
         bounds = \<lparr>minX = 0, maxX = real w, minY = 0, maxY = real h\<rparr>,
         contrastFactor = 1.0\<rparr>]"

text \<open>
  \<open>applyRegionalContrast\<close> destructures \<open>contrastFactor\<close> out of
  \<open>region.bounds\<close>, together with the four limits. A bounds object has the four
  limits only (\<open>contourToBoundary\<close>, \<open>estimateGumBounds\<close>, the background literal),
  so the property read yields \<open>undefined\<close>.
\<close>

definition bounds_contrastFactor :: "Bounds \<Rightarrow> real option" where
  "bounds_contrastFactor b = None"

text \<open>The three colour channels of the pixel at byte offset \<open>idx\<close>.\<close>

definition contrastChannel :: "jsnum \<Rightarrow> byte list \<Rightarrow> int \<Rightarrow> byte list" where
  "contrastChannel factor d i =
     (let v = toNumber (rd d i);
          adjusted = js_add (js_mul (js_sub v (Num 128)) (js_add (Num 1) factor)) (Num 128)
      in wr d i (js_max (Num 0) (js_min (Num 255) adjusted)))"

definition contrastPixel :: "jsnum \<Rightarrow> nat \<Rightarrow> int \<Rightarrow> byte list \<Rightarrow> int \<Rightarrow> byte list" where
  "contrastPixel factor w y d x =
     (let idx = (y * int w + x) * 4 in
      foldl (\<lambda>d' c. contrastChannel factor d' (idx + c)) d [0, 1, 2])"

definition applyRegionalContrast :: "byte list \<Rightarrow> nat \<Rightarrow> nat \<Rightarrow> Region \<Rightarrow> real \<Rightarrow> byte list" where
  "applyRegionalContrast d w h region globalFactor =
     (let b = bounds region;
          factor = js_mul (Num globalFactor) (toNumber (bounds_contrastFactor b))
      in foldl (\<lambda>d' y. foldl (contrastPixel factor w y) d' [\<lfloor>minX b\<rfloor> .. \<lfloor>maxX b\<rfloor> - 1])
               d [\<lfloor>minY b\<rfloor> .. \<lfloor>maxY b\<rfloor> - 1])"

definition applyAdaptiveContrast :: "DetectionResults option \<Rightarrow> ImageData \<Rightarrow> real \<Rightarrow> ImageData" where
  "applyAdaptiveContrast detectionResults imageData strength =
     (let w = width imageData; h = height imageData; factor = strength / 100;
          regions = createEnhancementRegions detectionResults w h
      in imageData\<lparr>data := foldl (\<lambda>d region. applyRegionalContrast d w h region factor)
                                   (data imageData) regions\<rparr>)"

subsection \<open>Noise reduction\<close>

text \<open>
  The 3x3 window of the bilateral filter, in the order the two inner loops visit it:
  \<open>dy\<close> outside, \<open>dx\<close> inside.
\<close>

definition window3 :: "(int \<times> int) list" where
  "window3 = concat (map (\<lambda>dy. map (\<lambda>dx. (dy, dx)) [-1, 0, 1]) [-1, 0, 1])"

definition bilateralWeight :: "real \<Rightarrow> int \<times> int \<Rightarrow> real \<Rightarrow> real" where
  "bilateralWeight centerValue off v =
     (let dy = fst off; dx = snd off;
          spatialWeight = exp (- real_of_int (dx * dx + dy * dy) / (2 * 1 * 1));
          intensityWeight = exp (- ((v - centerValue)\<^sup>2) / (2 * 30 * 30))
      in spatialWeight * intensityWeight)"

text \<open>
  The value stored at \<open>output[centerIdx]\<close> for channel \<open>c\<close> of pixel \<open>(x, y)\<close>.
  A read outside the array is \<open>undefined\<close> and makes the whole sum NaN. The weights
  are positive, so the division is by a positive number.
\<close>

definition bilateralValue :: "byte list \<Rightarrow> nat \<Rightarrow> real \<Rightarrow> int \<Rightarrow> int \<Rightarrow> int \<Rightarrow> jsnum" where
  "bilateralValue d w factor y x c =
     (case rd d ((y * int w + x) * 4 + c) of
        None \<Rightarrow> NaN
      | Some centerValue \<Rightarrow>
          (case those (map (\<lambda>off. rd d (((y + fst off) * int w + (x + snd off)) * 4 + c)) window3) of
             None \<Rightarrow> NaN
           | Some vs \<Rightarrow>
               (let ws = map2 (bilateralWeight centerValue) window3 vs;
                    weightedSum = sum_list (map2 (*) vs ws);
                    weightSum = sum_list ws;
                    filteredValue = weightedSum / weightSum
                in Num (centerValue * (1 - factor) + filteredValue * factor))))"

definition noisePixel :: "byte list \<Rightarrow> nat \<Rightarrow> real \<Rightarrow> int \<Rightarrow> byte list \<Rightarrow> int \<Rightarrow> byte list" where
  "noisePixel d w factor y out x =
     foldl (\<lambda>out' c. wr out' ((y * int w + x) * 4 + c) (bilateralValue d w factor y x c)) out [0, 1, 2]"

definition applyAdaptiveNoiseReduction :: "ImageData \<Rightarrow> real \<Rightarrow> ImageData" where
  "applyAdaptiveNoiseReduction imageData strength =
     (let d = data imageData; w = width imageData; h = height imageData;
          factor = strength / 100;
          output = foldl (\<lambda>out y. foldl (noisePixel d w factor y) out [1 .. int w - 2])
                         d [1 .. int h - 2]
      in imageData\<lparr>data := output\<rparr>)"

subsection \<open>Specular control\<close>

text \<open>The body of the loop of \<open>applySmartSpecularControl\<close> for one pixel.\<close>

definition specularPixel :: "real \<Rightarrow> byte \<Rightarrow> byte \<Rightarrow> byte \<Rightarrow> byte \<times> byte \<times> byte" where
  "specularPixel factor r g b =
     (let brightness = (byteval r + byteval g + byteval b) / 3 in
      if 200 < brightness then
        (let reduction = factor * (brightness - 200) / 55;
             adjustedBrightness = brightness - (brightness - 200) * reduction;
             scale = adjustedBrightness / brightness
         in (toUint8Clamp (Num (byteval r * scale)),
             toUint8Clamp (Num (byteval g * scale)),
             toUint8Clamp (Num (byteval b * scale))))
      else (r, g, b))"

text \<open>
  A last group of three bytes still has its three colour channels. A last group of one
  or two bytes has an \<open>undefined\<close> channel: the brightness is NaN, the comparison
  with 200 is false, nothing is written.
\<close>

fun specularLoop :: "real \<Rightarrow> byte list \<Rightarrow> byte list" where
  "specularLoop factor (r # g # b # a # rest) =
     (case specularPixel factor r g b of (nr, ng, nb) \<Rightarrow> nr # ng # nb # a # specularLoop factor rest)"
| "specularLoop factor [r, g, b] =
     (case specularPixel factor r g b of (nr, ng, nb) \<Rightarrow> [nr, ng, nb])"
| "specularLoop factor xs = xs"

definition applySmartSpecularControl :: "ImageData \<Rightarrow> real \<Rightarrow> ImageData" where
  "applySmartSpecularControl imageData level =
     (let factor = level / 100 in imageData\<lparr>data := specularLoop factor (data imageData)\<rparr>)"

subsection \<open>Colour correction\<close>

record Histogram =
  hist_r :: "nat list"
  hist_g :: "nat list"
  hist_b :: "nat list"

definition bump :: "nat list \<Rightarrow> byte \<Rightarrow> nat list" where
  "bump hist v = hist[unat v := hist ! unat v + 1]"

text \<open>
  \<open>calculateHistogram\<close>: three arrays of 256 counters. A missing channel of a last,
  incomplete pixel indexes the array with \<open>undefined\<close> and touches no counter.
\<close>

fun histogramLoop :: "Histogram \<Rightarrow> byte list \<Rightarrow> Histogram" where
  "histogramLoop hs (r # g # b # a # rest) =
     histogramLoop \<lparr>hist_r = bump (hist_r hs) r, hist_g = bump (hist_g hs) g, hist_b = bump (hist_b hs) b\<rparr> rest"
| "histogramLoop hs [r, g, b] =
     \<lparr>hist_r = bump (hist_r hs) r, hist_g = bump (hist_g hs) g, hist_b = bump (hist_b hs) b\<rparr>"
| "histogramLoop hs [r, g] = hs\<lparr>hist_r := bump (hist_r hs) r, hist_g := bump (hist_g hs) g\<rparr>"
| "histogramLoop hs [r] = hs\<lparr>hist_r := bump (hist_r hs) r\<rparr>"
| "histogramLoop hs [] = hs"

definition calculateHistogram :: "byte list \<Rightarrow> Histogram" where
  "calculateHistogram d =
     histogramLoop \<lparr>hist_r = replicate 256 0, hist_g = replicate 256 0, hist_b = replicate 256 0\<rparr> d"

text \<open>
  \<open>findGrayPoint\<close>, the arrow function inside \<open>calculateWhiteBalance\<close>, sums
  \<open>hist[i] * i\<close> and then divides by \<open>data.length / 4\<close>. No \<open>data\<close> is in scope
  there: the only parameter of \<open>calculateWhiteBalance\<close> is \<open>histogram\<close>, and neither
  the class nor any script of the repository declares a global of that name. Evaluating
  the identifier throws a ReferenceError.
\<close>

definition findGrayPoint :: "nat list \<Rightarrow> error + jsnum" where
  "findGrayPoint hist =
     (let sum = sum_list (map2 (*) hist [0 ..< 256]) in Inl (ReferenceError ''data''))"

record WhiteBalance =
  wb_r :: jsnum
  wb_g :: jsnum
  wb_b :: jsnum

definition calculateWhiteBalance :: "Histogram \<Rightarrow> error + WhiteBalance" where
  "calculateWhiteBalance histogram =
     (case findGrayPoint (hist_r histogram) of
        Inl e \<Rightarrow> Inl e
      | Inr grayR \<Rightarrow>
          (case findGrayPoint (hist_g histogram) of
             Inl e \<Rightarrow> Inl e
           | Inr grayG \<Rightarrow>
               (case findGrayPoint (hist_b histogram) of
                  Inl e \<Rightarrow> Inl e
                | Inr grayB \<Rightarrow>
                    (let avgGray = js_div (js_add (js_add grayR grayG) grayB) (Num 3) in
                     Inr \<lparr>wb_r = js_div avgGray grayR,
                          wb_g = js_div avgGray grayG,
                          wb_b = js_div avgGray grayB\<rparr>))))"

definition balanceByte :: "jsnum \<Rightarrow> byte \<Rightarrow> byte" where
  "balanceByte gain v = toUint8Clamp (js_min (Num 255) (js_mul (Num (byteval v)) gain))"

fun balanceLoop :: "WhiteBalance \<Rightarrow> byte list \<Rightarrow> byte list" where
  "balanceLoop wb (r # g # b # a # rest) =
     balanceByte (wb_r wb) r # balanceByte (wb_g wb) g # balanceByte (wb_b wb) b # a # balanceLoop wb rest"
| "balanceLoop wb [r, g, b] = [balanceByte (wb_r wb) r, balanceByte (wb_g wb) g, balanceByte (wb_b wb) b]"
| "balanceLoop wb [r, g] = [balanceByte (wb_r wb) r, balanceByte (wb_g wb) g]"
| "balanceLoop wb [r] = [balanceByte (wb_r wb) r]"
| "balanceLoop wb [] = []"

definition applyColorCorrection :: "ImageData \<Rightarrow> error + ImageData" where
  "applyColorCorrection imageData =
     (let histogram = calculateHistogram (data imageData) in
      case calculateWhiteBalance histogram of
        Inl e \<Rightarrow> Inl e
      | Inr whiteBalance \<Rightarrow> Inr (imageData\<lparr>data := balanceLoop whiteBalance (data imageData)\<rparr>))"

subsection \<open>The pipeline\<close>

text \<open>
  The options object. A stage flag that is absent is falsy, so the flags are booleans;
  a numeric knob may be absent (\<open>None\<close>).
\<close>

record Options =
  smartWhitening :: bool
  whitening :: "real option"
  adaptiveContrast :: bool
  contrast :: "real option"
  adaptiveNoise :: bool
  noise :: "real option"
  smartSpecular :: bool
  specular :: "real option"
  colorCorrection :: bool

text \<open>\<open>knob > 0\<close>, false for an absent knob; \<open>knob || dflt\<close>, the default for an absent or zero knob.\<close>

fun positive :: "real option \<Rightarrow> bool" where
  "positive None = False"
| "positive (Some v) = (0 < v)"

fun orDefault :: "real option \<Rightarrow> real \<Rightarrow> real" where
  "orDefault None dflt = dflt"
| "orDefault (Some v) dflt = (if v = 0 then dflt else v)"

text \<open>
  \<open>applySmartEnhancement\<close>. The working copy is made with \<open>new ImageData(array, width,
  height)\<close>, which throws unless the array holds \<open>4 * width * height\<close> bytes and the
  sizes are positive. The stages then run in the fixed order on the copy; the engine's
  \<open>detectionResults\<close> field, read by the contrast stage, is the first argument.
\<close>

definition applySmartEnhancement :: "DetectionResults option \<Rightarrow> ImageData \<Rightarrow> Options \<Rightarrow> error + ImageData" where
  "applySmartEnhancement detectionResults imageData options =
     (if \<not> valid imageData then Inl IndexSizeError
      else
        (case (if smartWhitening options \<or> positive (whitening options)
               then applySmartWhitening imageData (orDefault (whitening options) 50)
               else Inr imageData) of
           Inl e \<Rightarrow> Inl e
         | Inr e1 \<Rightarrow>
             (let e2 = (if adaptiveContrast options \<or> positive (contrast options)
                        then applyAdaptiveContrast detectionResults e1 (orDefault (contrast options) 30)
                        else e1);
                  e3 = (if adaptiveNoise options \<or> positive (noise options)
                        then applyAdaptiveNoiseReduction e2 (orDefault (noise options) 40)
                        else e2);
                  e4 = (if smartSpecular options \<or> specular options \<noteq> None
                        then applySmartSpecularControl e3 (orDefault (specular options) (-20))
                        else e3)
              in if colorCorrection options then applyColorCorrection e4 else Inr e4)))"

definition smartEnhanceOptions :: Options where
  "smartEnhanceOptions =
     \<lparr>smartWhitening = True, whitening = Some 30, adaptiveContrast = True, contrast = Some 25,
      adaptiveNoise = True, noise = Some 35, smartSpecular = True, specular = Some (-15),
      colorCorrection = True\<rparr>"

definition dentalModeOptions :: Options where
  "dentalModeOptions =
     \<lparr>smartWhitening = True, whitening = Some 20, adaptiveContrast = True, contrast = Some 40,
      adaptiveNoise = True, noise = Some 50, smartSpecular = True, specular = Some (-25),
      colorCorrection = True\<rparr>"

definition clinicalModeOptions :: Options where
  "clinicalModeOptions =
     \<lparr>smartWhitening = False, whitening = Some 0, adaptiveContrast = True, contrast = Some 15,
      adaptiveNoise = True, noise = Some 60, smartSpecular = True, specular = Some (-30),
      colorCorrection = True\<rparr>"

definition applySmartEnhance :: "DetectionResults option \<Rightarrow> ImageData \<Rightarrow> error + ImageData" where
  "applySmartEnhance detectionResults imageData =
     applySmartEnhancement detectionResults imageData smartEnhanceOptions"

section \<open>The detectors\<close>

subsection \<open>Tooth detector\<close>

text \<open>
  \<open>convertToGrayscale\<close>: one gray value for every group of four bytes. A last group
  with a missing green or blue channel gives NaN. The gray array has exactly
  \<open>width * height\<close> bytes: writes beyond it are ignored, untouched bytes stay 0. The
  result is a plain object with the fields \<open>data\<close>, \<open>width\<close>, \<open>height\<close>, as an
  \<open>ImageData\<close> has.
\<close>

fun grayLoop :: "byte list \<Rightarrow> jsnum list" where
  "grayLoop (r # g # b # a # rest) =
     Num (0.299 * byteval r + 0.587 * byteval g + 0.114 * byteval b) # grayLoop rest"
| "grayLoop [r, g, b] = [Num (0.299 * byteval r + 0.587 * byteval g + 0.114 * byteval b)]"
| "grayLoop [r, g] = [NaN]"
| "grayLoop [r] = [NaN]"
| "grayLoop [] = []"

definition convertToGrayscale :: "ImageData \<Rightarrow> ImageData" where
  "convertToGrayscale imageData =
     (let n = width imageData * height imageData;
          gs = take n (map toUint8Clamp (grayLoop (data imageData)))
      in \<lparr>width = width imageData, height = height imageData,
          data = gs @ replicate (n - length gs) 0\<rparr>)"

definition sobelX :: "real list" where
  "sobelX = [-1, 0, 1, -2, 0, 2, -1, 0, 1]"

definition sobelY :: "real list" where
  "sobelY = [-1, -2, -1, 0, 0, 0, 1, 2, 1]"

text \<open>
  The edge byte of pixel \<open>(x, y)\<close>. The kernel loops visit the window in the order of
  \<open>window3\<close> (\<open>ky\<close> outside, \<open>kx\<close> inside), which is the order of the kernel
  arrays. An \<open>undefined\<close> read makes the magnitude NaN, and \<open>NaN > 50\<close> is false.
\<close>

definition edgeAt :: "byte list \<Rightarrow> nat \<Rightarrow> int \<Rightarrow> int \<Rightarrow> byte" where
  "edgeAt d w y x =
     (case those (map (\<lambda>k. rd d ((y + fst k) * int w + (x + snd k))) window3) of
        None \<Rightarrow> 0
      | Some vs \<Rightarrow>
          (let gx = sum_list (map2 (*) vs sobelX);
               gy = sum_list (map2 (*) vs sobelY);
               magnitude = sqrt (gx * gx + gy * gy)
           in if 50 < magnitude then 255 else 0))"

definition detectEdges :: "ImageData \<Rightarrow> ImageData" where
  "detectEdges grayImageData =
     (let d = data grayImageData; w = width grayImageData; h = height grayImageData;
          edges = foldl (\<lambda>e y. foldl (\<lambda>e' x. e'[nat (y * int w + x) := edgeAt d w y x])
                                      e [1 .. int w - 2])
                        (replicate (length d) 0) [1 .. int h - 2]
      in \<lparr>width = w, height = h, data = edges\<rparr>)"

text \<open>
  \<open>traceContour\<close>: the flood fill over the explicit stack. The head of the list is
  the top of the stack; \<open>stack.push(a, b, c, d)\<close> leaves \<open>d\<close> on top. The
  \<open>visited\<close> bitmap, shared with \<open>findContours\<close>, is the set of indices whose
  byte is 1; it has the length of the edge array, and only an index holding an edge
  byte is ever marked, so no mark falls outside it.
\<close>

function traceLoop ::
  "ImageData \<Rightarrow> (int \<times> int) list \<Rightarrow> nat set \<Rightarrow> (int \<times> int) list \<Rightarrow> (int \<times> int) list \<times> nat set"
where
  "traceLoop edges [] visited contour = (contour, visited)"
| "traceLoop edges ((x, y) # stack) visited contour =
     (if x < 0 \<or> int (width edges) \<le> x \<or> y < 0 \<or> int (height edges) \<le> y
         \<or> rd (data edges) (y * int (width edges) + x) \<noteq> Some 255
         \<or> nat (y * int (width edges) + x) \<in> visited
      then traceLoop edges stack visited contour
      else traceLoop edges ((x, y - 1) # (x, y + 1) # (x - 1, y) # (x + 1, y) # stack)
             (insert (nat (y * int (width edges) + x)) visited) (contour @ [(x, y)]))"
  by pat_completeness auto
termination
proof (relation "measure (\<lambda>(edges, stack, visited, contour).
          5 * card {i. i < length (data edges) \<and> rd (data edges) (int i) = Some 255 \<and> i \<notin> visited}
          + length stack)")
  show "wf (measure (\<lambda>(edges, stack, visited, contour).
          5 * card {i. i < length (data edges) \<and> rd (data edges) (int i) = Some 255 \<and> i \<notin> visited}
          + length stack))"
    by simp
next
  fix edges :: ImageData and x y :: int and stack :: "(int \<times> int) list"
    and visited :: "nat set" and contour :: "(int \<times> int) list"
  show "((edges, stack, visited, contour), (edges, (x, y) # stack, visited, contour))
          \<in> measure (\<lambda>(edges, stack, visited, contour).
          5 * card {i. i < length (data edges) \<and> rd (data edges) (int i) = Some 255 \<and> i \<notin> visited}
          + length stack)"
    by simp
next
  fix edges :: ImageData and x y :: int and stack :: "(int \<times> int) list"
    and visited :: "nat set" and contour :: "(int \<times> int) list"
  assume a: "\<not> (x < 0 \<or> int (width edges) \<le> x \<or> y < 0 \<or> int (height edges) \<le> y
         \<or> rd (data edges) (y * int (width edges) + x) \<noteq> Some 255
         \<or> nat (y * int (width edges) + x) \<in> visited)"
  define k where "k = nat (y * int (width edges) + x)"
  define S where "S = {i. i < length (data edges) \<and> rd (data edges) (int i) = Some 255 \<and> i \<notin> visited}"
  define S' where "S' = {i. i < length (data edges) \<and> rd (data edges) (int i) = Some 255
                           \<and> i \<notin> insert k visited}"
  from a have nonneg: "0 \<le> y * int (width edges) + x" by simp
  from a have r: "rd (data edges) (y * int (width edges) + x) = Some 255" by simp
  from nonneg have ik: "int k = y * int (width edges) + x" by (simp add: k_def)
  from r ik have rk: "rd (data edges) (int k) = Some 255" by simp
  then have klen: "k < length (data edges)" by (simp add: rd_def split: if_splits)
  from a have knv: "k \<notin> visited" by (simp add: k_def)
  have fin: "finite S" by (simp add: S_def)
  have kS: "k \<in> S" using rk klen knv by (simp add: S_def)
  have "S' = S - {k}" by (auto simp: S'_def S_def)
  then have "card S' = card S - 1" using kS fin by simp
  moreover have "0 < card S" using kS fin by (auto simp: card_gt_0_iff)
  ultimately have "5 * card S' + (length stack + 4) < 5 * card S + (length stack + 1)" by simp
  then show "((edges, (x, y - 1) # (x, y + 1) # (x - 1, y) # (x + 1, y) # stack,
                insert (nat (y * int (width edges) + x)) visited, contour @ [(x, y)]),
              (edges, (x, y) # stack, visited, contour))
          \<in> measure (\<lambda>(edges, stack, visited, contour).
          5 * card {i. i < length (data edges) \<and> rd (data edges) (int i) = Some 255 \<and> i \<notin> visited}
          + length stack)"
    by (simp add: S_def S'_def k_def)
qed

definition traceContour :: "ImageData \<Rightarrow> int \<Rightarrow> int \<Rightarrow> nat set \<Rightarrow> (int \<times> int) list \<times> nat set" where
  "traceContour edges startX startY visited = traceLoop edges [(startX, startY)] visited []"

text \<open>The pixels in the order of the two scanning loops: rows outside, columns inside.\<close>

definition scanOrder :: "nat \<Rightarrow> nat \<Rightarrow> (nat \<times> nat) list" where
  "scanOrder w h = concat (map (\<lambda>y. map (\<lambda>x. (x, y)) [0 ..< w]) [0 ..< h])"

text \<open>
  The body of the scanning loops of \<open>findContours\<close>, on the pair of the contours
  collected so far and the \<open>visited\<close> bitmap.
\<close>

definition findContoursStep ::
  "ImageData \<Rightarrow> (int \<times> int) list list \<times> nat set \<Rightarrow> nat \<times> nat \<Rightarrow> (int \<times> int) list list \<times> nat set"
where
  "findContoursStep edges st p =
     (let x = fst p; y = snd p; idx = y * width edges + x in
      if rd (data edges) (int idx) = Some 255 \<and> idx \<notin> snd st then
        (case traceContour edges (int x) (int y) (snd st) of
           (contour, visited') \<Rightarrow>
             (if 10 < length contour then fst st @ [contour] else fst st, visited'))
      else st)"

definition findContours :: "ImageData \<Rightarrow> (int \<times> int) list list" where
  "findContours edges =
     fst (foldl (findContoursStep edges) ([], {}) (scanOrder (width edges) (height edges)))"

text \<open>
  For stating what the size test keeps: the same scan, recording every contour that
  \<open>traceContour\<close> returns, before the size test.
\<close>

definition tracedStep ::
  "ImageData \<Rightarrow> (int \<times> int) list list \<times> nat set \<Rightarrow> nat \<times> nat \<Rightarrow> (int \<times> int) list list \<times> nat set"
where
  "tracedStep edges st p =
     (let x = fst p; y = snd p; idx = y * width edges + x in
      if rd (data edges) (int idx) = Some 255 \<and> idx \<notin> snd st then
        (case traceContour edges (int x) (int y) (snd st) of
           (contour, visited') \<Rightarrow> (fst st @ [contour], visited'))
      else st)"

definition tracedContours :: "ImageData \<Rightarrow> (int \<times> int) list list" where
  "tracedContours edges =
     fst (foldl (tracedStep edges) ([], {}) (scanOrder (width edges) (height edges)))"

text \<open>Each point of a contour with its cyclic successor \<open>contour[(i + 1) % length]\<close>.\<close>

definition segments :: "(int \<times> int) list \<Rightarrow> ((int \<times> int) \<times> (int \<times> int)) list" where
  "segments contour = zip contour (rotate1 contour)"

definition calculateArea :: "(int \<times> int) list \<Rightarrow> real" where
  "calculateArea contour =
     \<bar>real_of_int (sum_list (map (\<lambda>(p, q). fst p * snd q - fst q * snd p) (segments contour)))\<bar> / 2"

definition calculatePerimeter :: "(int \<times> int) list \<Rightarrow> real" where
  "calculatePerimeter contour =
     sum_list (map (\<lambda>(p, q). sqrt (real_of_int ((fst q - fst p)\<^sup>2 + (snd q - snd p)\<^sup>2)))
                   (segments contour))"

text \<open>
  \<open>isToothLike\<close>. A perimeter of 0 (no point, or one point repeated) makes the
  source's circularity NaN; the area is then 0 and the first comparison already fails,
  as it does here.
\<close>

definition isToothLike :: "(int \<times> int) list \<Rightarrow> bool" where
  "isToothLike contour =
     (let area = calculateArea contour;
          perimeter = calculatePerimeter contour;
          circularity = (4 * pi * area) / (perimeter * perimeter)
      in 500 < area \<and> area < 50000 \<and> 0.3 < circularity \<and> circularity < 0.8)"

text \<open>
  \<open>contourToBoundary\<close>. \<open>Math.min()\<close> of no argument is \<open>Infinity\<close>, which the
  finite \<open>Bounds\<close> of the model do not hold: the empty contour has no boundary here.
  \<open>filterToothContours\<close> never asks for it, since \<open>isToothLike\<close> fails on the
  empty contour.
\<close>

fun contourToBoundary :: "(int \<times> int) list \<Rightarrow> ToothBoundary option" where
  "contourToBoundary [] = None"
| "contourToBoundary (p # ps) =
     (let mnX = real_of_int (foldl min (fst p) (map fst ps));
          mxX = real_of_int (foldl max (fst p) (map fst ps));
          mnY = real_of_int (foldl min (snd p) (map snd ps));
          mxY = real_of_int (foldl max (snd p) (map snd ps))
      in Some \<lparr>points = p # ps,
               boundingBox = \<lparr>minX = mnX, maxX = mxX, minY = mnY, maxY = mxY\<rparr>,
               center = ((mnX + mxX) / 2, (mnY + mxY) / 2)\<rparr>)"

definition filterToothContours :: "(int \<times> int) list list \<Rightarrow> ToothBoundary list" where
  "filterToothContours contours =
     concat (map (\<lambda>contour. if isToothLike contour
                              then (case contourToBoundary contour of Some b \<Rightarrow> [b] | None \<Rightarrow> [])
                              else [])
                 contours)"

definition calculateConfidence :: "ToothBoundary list \<Rightarrow> real" where
  "calculateConfidence ts =
     (if length ts = 0 then 0
      else if length ts < 4 then 0.6
      else if length ts < 8 then 0.8
      else 0.9)"

text \<open>
  \<open>ToothDetector.detect\<close>. The canvas the source creates first takes no part in the
  result.
\<close>

definition ToothDetector_detect :: "ImageData \<Rightarrow> ToothResult" where
  "ToothDetector_detect imageData =
     (let grayImageData = convertToGrayscale imageData;
          edges = detectEdges grayImageData;
          contours = findContours edges;
          ts = filterToothContours contours
      in \<lparr>boundaries = ts, count = length ts, confidence = calculateConfidence ts\<rparr>)"

subsection \<open>Gum detector\<close>

definition rgbToHue :: "real \<Rightarrow> real \<Rightarrow> real \<Rightarrow> real" where
  "rgbToHue r0 g0 b0 =
     (let r = r0 / 255; g = g0 / 255; b = b0 / 255;
          mx = max (max r g) b;
          mn = min (min r g) b;
          delta = mx - mn;
          hue = (if delta \<noteq> 0
                 then (if mx = r then js_rem ((g - b) / delta) 6
                       else if mx = g then (b - r) / delta + 2
                       else (r - g) / delta + 4)
                 else 0)
      in hue * 60)"

definition rgbToSaturation :: "real \<Rightarrow> real \<Rightarrow> real \<Rightarrow> real" where
  "rgbToSaturation r0 g0 b0 =
     (let r = r0 / 255; g = g0 / 255; b = b0 / 255;
          mx = max (max r g) b;
          mn = min (min r g) b;
          delta = mx - mn
      in if mx = 0 then 0 else delta / mx)"

definition isGumColor :: "real \<Rightarrow> real \<Rightarrow> real \<Rightarrow> bool" where
  "isGumColor r g b =
     (let hue = rgbToHue r g b;
          saturation = rgbToSaturation r g b;
          brightness = (r + g + b) / 3
      in 0 \<le> hue \<and> hue \<le> 30 \<and> 0.2 < saturation \<and> 50 < brightness \<and> brightness < 200)"

text \<open>
  A colour test on the pixel whose red byte is at \<open>idx\<close>. With a channel read outside
  the array every comparison of the test involves NaN, and the test fails.
\<close>

definition pixelTest :: "(real \<Rightarrow> real \<Rightarrow> real \<Rightarrow> bool) \<Rightarrow> byte list \<Rightarrow> int \<Rightarrow> bool" where
  "pixelTest test d idx =
     (case (rd d idx, rd d (idx + 1), rd d (idx + 2)) of
        (Some r, Some g, Some b) \<Rightarrow> test r g b
      | _ \<Rightarrow> False)"

definition gumPoints :: "ImageData \<Rightarrow> (nat \<times> nat) list" where
  "gumPoints imageData =
     filter (\<lambda>p. pixelTest isGumColor (data imageData)
                    (int ((snd p * width imageData + fst p) * 4)))
            (scanOrder (width imageData) (height imageData))"

definition fitGumLine :: "(nat \<times> nat) list \<Rightarrow> GumLine option" where
  "fitGumLine pts =
     (if length pts < 2 then None
      else
        (let n = real (length pts);
             sumX = real (sum_list (map fst pts));
             sumY = real (sum_list (map snd pts));
             sumXY = real (sum_list (map (\<lambda>p. fst p * snd p) pts));
             sumX2 = real (sum_list (map (\<lambda>p. fst p * fst p) pts));
             slope = js_div (Num (n * sumXY - sumX * sumY)) (Num (n * sumX2 - sumX * sumX));
             intercept = js_div (js_sub (Num sumY) (js_mul slope (Num sumX))) (Num n)
         in Some \<lparr>slope = slope, intercept = intercept, sourcePoints = pts\<rparr>))"

definition detectGumLine :: "ImageData \<Rightarrow> GumLine option" where
  "detectGumLine imageData = fitGumLine (gumPoints imageData)"

definition GumDetector_detect :: "ImageData \<Rightarrow> GumResult" where
  "GumDetector_detect imageData = \<lparr>line = detectGumLine imageData, gum_confidence = 0.85\<rparr>"

subsection \<open>Smile zones\<close>

definition SmileZoneClassifier_classify :: "ImageData \<Rightarrow> SmileZones" where
  "SmileZoneClassifier_classify imageData =
     (let w = real (width imageData); h = real (height imageData) in
      \<lparr>anterior = \<lparr>rect_x = w / 3, rect_y = h / 3, rect_width = w / 3, rect_height = h / 3\<rparr>,
       posterior_left = \<lparr>rect_x = 0, rect_y = h / 3, rect_width = w / 3, rect_height = h / 3\<rparr>,
       posterior_right = \<lparr>rect_x = 2 * w / 3, rect_y = h / 3, rect_width = w / 3, rect_height = h / 3\<rparr>,
       zone_confidence = 0.8\<rparr>)"

subsection \<open>Plaque and restoration detectors\<close>

text \<open>The sample grid \<open>for (v = 0; v < n; v += 10)\<close>, rows outside, columns inside.\<close>

definition stride10 :: "nat \<Rightarrow> nat list" where
  "stride10 n = map (\<lambda>k. 10 * k) [0 ..< (n + 9) div 10]"

definition sampleGrid :: "nat \<Rightarrow> nat \<Rightarrow> (nat \<times> nat) list" where
  "sampleGrid w h = concat (map (\<lambda>y. map (\<lambda>x. (x, y)) (stride10 w)) (stride10 h))"

definition sampleAreas :: "(real \<Rightarrow> real \<Rightarrow> real \<Rightarrow> bool) \<Rightarrow> ImageData \<Rightarrow> Area list" where
  "sampleAreas test imageData =
     map (\<lambda>p. \<lparr>area_x = fst p, area_y = snd p, radius = 5\<rparr>)
         (filter (\<lambda>p. pixelTest test (data imageData) (int ((snd p * width imageData + fst p) * 4)))
                 (sampleGrid (width imageData) (height imageData)))"

definition isPlaqueColor :: "real \<Rightarrow> real \<Rightarrow> real \<Rightarrow> bool" where
  "isPlaqueColor r g b =
     (let brightness = (r + g + b) / 3;
          yellowTint = (r + g) / 2 - b
      in 180 < brightness \<and> 10 < yellowTint \<and> yellowTint < 40)"

definition detectPlaque :: "ImageData \<Rightarrow> Area list" where
  "detectPlaque imageData = sampleAreas isPlaqueColor imageData"

definition PlaqueDetector_detect :: "ImageData \<Rightarrow> AreaResult" where
  "PlaqueDetector_detect imageData = \<lparr>areas = detectPlaque imageData, area_confidence = 0.7\<rparr>"

definition isRestorationMaterial :: "real \<Rightarrow> real \<Rightarrow> real \<Rightarrow> bool" where
  "isRestorationMaterial r g b =
     (let brightness = (r + g + b) / 3;
          colorVariance = max (max r g) b - min (min r g) b
      in (200 < brightness \<and> colorVariance < 20)
         \<or> (150 < brightness \<and> brightness < 200 \<and> 30 < colorVariance))"

definition detectRestorations :: "ImageData \<Rightarrow> Area list" where
  "detectRestorations imageData = sampleAreas isRestorationMaterial imageData"

definition RestorationDetector_detect :: "ImageData \<Rightarrow> AreaResult" where
  "RestorationDetector_detect imageData =
     \<lparr>areas = detectRestorations imageData, area_confidence = 0.6\<rparr>"

subsection \<open>The integration layer\<close>

record MLIntegration =
  isInitialized :: bool
  detectionResults :: "DetectionResults option"

text \<open>
  \<open>detectDentalFeatures\<close>. The clock reading \<open>Date.now()\<close> is an argument; the
  result is the object returned together with the state of the layer, which remembers it.
\<close>

definition detectDentalFeatures ::
  "MLIntegration \<Rightarrow> ImageData \<Rightarrow> nat \<Rightarrow> error + DetectionResults \<times> MLIntegration" where
  "detectDentalFeatures this imageData now =
     (if \<not> isInitialized this then Inl NotInitialized
      else
        (let results =
               \<lparr>teeth = Some (ToothDetector_detect imageData),
                gums = Some (GumDetector_detect imageData),
                smileZones = SmileZoneClassifier_classify imageData,
                plaque = PlaqueDetector_detect imageData,
                restorations = RestorationDetector_detect imageData,
                timestamp = now\<rparr>
         in Inr (results, this\<lparr>detectionResults := Some results\<rparr>)))"

section \<open>Concrete inputs\<close>

text \<open>A single black pixel, on which every detector finds nothing.\<close>

definition black1 :: ImageData where
  "black1 = \<lparr>width = 1, height = 1, data = [0, 0, 0, 255]\<rparr>"

text \<open>The integration layer after \<open>initialize\<close>, before any detection.\<close>

definition readyLayer :: MLIntegration where
  "readyLayer = \<lparr>isInitialized = True, detectionResults = None\<rparr>"

text \<open>
  An edge map of 12 by 3 pixels whose only edge pixels are the ten pixels
  \<open>(1, 1), ..., (10, 1)\<close> of the middle row: one connected component of ten points.
\<close>

definition edgeRow10 :: ImageData where
  "edgeRow10 = \<lparr>width = 12, height = 3, data =
      [0, 0, 0, 0, 0, 0, 0, 0, 0, 0, 0, 0,
       0, 255, 255, 255, 255, 255, 255, 255, 255, 255, 255, 0,
       0, 0, 0, 0, 0, 0, 0, 0, 0, 0, 0, 0]\<rparr>"

text \<open>A single bright gray pixel.\<close>

definition gray240 :: ImageData where
  "gray240 = \<lparr>width = 1, height = 1, data = [240, 240, 240, 255]\<rparr>"

text \<open>
  Two options objects with every stage flag false: one that carries the four numeric
  knobs, all at 0, and one that carries no knob.
\<close>

definition flagsOffZeroKnobs :: Options where
  "flagsOffZeroKnobs =
     \<lparr>smartWhitening = False, whitening = Some 0, adaptiveContrast = False, contrast = Some 0,
      adaptiveNoise = False, noise = Some 0, smartSpecular = False, specular = Some 0,
      colorCorrection = False\<rparr>"

definition flagsOffNoKnobs :: Options where
  "flagsOffNoKnobs =
     \<lparr>smartWhitening = False, whitening = None, adaptiveContrast = False, contrast = None,
      adaptiveNoise = False, noise = None, smartSpecular = False, specular = None,
      colorCorrection = False\<rparr>"



text \<open>The flat white image of 4 by 4 pixels, and the black one.\<close>

definition white4 :: ImageData where
  "white4 = \<lparr>width = 4, height = 4, data = concat (replicate 16 [255, 255, 255, 255])\<rparr>"

definition black4 :: ImageData where
  "black4 = \<lparr>width = 4, height = 4, data = concat (replicate 16 [0, 0, 0, 255])\<rparr>"

section \<open>The contrast value of the specification\<close>


section \<open>Properties of the shade catalog and of whitening\<close>





text \<open>The pixel of the catalog's A1 under the whitening stage.\<close>

lemma tooth_a1: "isToothPixel 255 248 240"
  by (simp add: isToothPixel_def rgbToHsv_def Let_def js_rem_def)

lemma closest_a1: "findClosestVITAShade 255 248 240 = Some (mkShade 255 248 240 ''A1'')"
  by (simp add: findClosestVITAShade_def findClosestIn_def loadVITAShades_def closestStep_def
        shadeDistance_def mkShade_def Let_def)

lemma target_a1_100:
  "getTargetWhitenedShade (mkShade 255 248 240 ''A1'') 1 = Some (mkShade 255 243 215 ''D1 - Lightest'')"
  by (simp add: getTargetWhitenedShade_def shadeOrder_def loadVITAShades_def mkShade_def Let_def)

lemma target_a1_20:
  "getTargetWhitenedShade (mkShade 255 248 240 ''A1'') (20 / 100) = Some (mkShade 255 238 215 ''B3 - Medium'')"
  by (simp add: getTargetWhitenedShade_def shadeOrder_def loadVITAShades_def mkShade_def Let_def)

lemma target_a1_0:
  "getTargetWhitenedShade (mkShade 255 248 240 ''A1'') 0 = Some (mkShade 255 248 240 ''A1 - Lightest'')"
  by (simp add: getTargetWhitenedShade_def shadeOrder_def loadVITAShades_def mkShade_def Let_def)

lemma whiten_a1_100: "whitenPixel (100 / 100) 255 248 240 = Inr (255, 243, 215)"
  by (simp add: whitenPixel_def tooth_a1 closest_a1 byteval_def target_a1_100 interpolateColor_def
        math_round_def mkShade_def[where n="''D1 - Lightest''"] roundHalfEven_def)

lemma whiten_a1_20: "whitenPixel (20 / 100) 255 248 240 = Inr (255, 246, 235)"
  using target_a1_20
  by (simp add: whitenPixel_def tooth_a1 closest_a1 byteval_def interpolateColor_def
        math_round_def mkShade_def[where n="''B3 - Medium''"] roundHalfEven_def)

lemma whiten_a1_0: "whitenPixel (0 / 100) 255 248 240 = Inr (255, 248, 240)"
  by (simp add: whitenPixel_def tooth_a1 closest_a1 byteval_def target_a1_0
        mkShade_def[where n="''A1 - Lightest''"] interpolateColor_def math_round_def roundHalfEven_def)

text \<open>
  C2 (the code at the failing input): the pixel \<open>(255, 248, 240)\<close>, the catalog's A1, is
  a tooth pixel. The whitening stage at strength 0 leaves it as it is, with channel sum
  743; at strength 20 it becomes \<open>(255, 246, 235)\<close>, channel sum 736, and at strength
  100 it becomes \<open>(255, 243, 215)\<close>, the catalog's D1, channel sum 713. The brightness
  falls as the strength grows: in \<open>shadeOrder\<close> the entries after A1 are B4, B3, ...,
  which are darker than A1.
\<close>

theorem C2_whitening_darkens_a1:
  "isToothPixel 255 248 240
   \<and> applySmartWhitening \<lparr>width = 1, height = 1, data = [255, 248, 240, 255]\<rparr> 0
       = Inr \<lparr>width = 1, height = 1, data = [255, 248, 240, 255]\<rparr>
   \<and> applySmartWhitening \<lparr>width = 1, height = 1, data = [255, 248, 240, 255]\<rparr> 20
       = Inr \<lparr>width = 1, height = 1, data = [255, 246, 235, 255]\<rparr>
   \<and> applySmartWhitening \<lparr>width = 1, height = 1, data = [255, 248, 240, 255]\<rparr> 100
       = Inr \<lparr>width = 1, height = 1, data = [255, 243, 215, 255]\<rparr>"
  using tooth_a1 whiten_a1_0 whiten_a1_20 whiten_a1_100
  by (simp add: applySmartWhitening_def)

section \<open>Properties of the tooth contour scan\<close>

text \<open>
  The scan of \<open>findContours\<close> and the scan that records every traced contour move
  through the same \<open>visited\<close> bitmaps; the first keeps of the second's contours those
  that pass the size test.
\<close>

lemma contour_steps_related:
  assumes "snd st = snd st'" and "fst st = filter (\<lambda>c. 10 < length c) (fst st')"
  shows "snd (findContoursStep edges st p) = snd (tracedStep edges st' p)
         \<and> fst (findContoursStep edges st p)
             = filter (\<lambda>c. 10 < length c) (fst (tracedStep edges st' p))"
  using assms by (simp add: findContoursStep_def tracedStep_def Let_def split: prod.splits)

lemma contour_scans_related:
  "snd st = snd st' \<Longrightarrow> fst st = filter (\<lambda>c. 10 < length c) (fst st') \<Longrightarrow>
   fst (foldl (findContoursStep edges) st ps)
     = filter (\<lambda>c. 10 < length c) (fst (foldl (tracedStep edges) st' ps))"
proof (induction ps arbitrary: st st')
  case Nil
  then show ?case by simp
next
  case (Cons p ps)
  from contour_steps_related [OF Cons.prems]
  have "snd (findContoursStep edges st p) = snd (tracedStep edges st' p)"
    and "fst (findContoursStep edges st p)
           = filter (\<lambda>c. 10 < length c) (fst (tracedStep edges st' p))"
    by blast+
  from Cons.IH [OF this] show ?case by simp
qed

text \<open>
  C9 (as amended): during tooth contour tracing, exactly the contours with 10 points or
  fewer are discarded: the result of \<open>findContours\<close> is the list of the traced
  contours, in scan order, that have more than 10 points.
\<close>

theorem C9_contour_size_filter:
  "findContours edges = filter (\<lambda>c. 10 < length c) (tracedContours edges)"
  unfolding findContours_def tracedContours_def
  by (rule contour_scans_related) simp_all

lemma upt12: "[0 ..< 12] = [0, 1, 2, 3, 4, 5, 6, 7, 8, 9, 10, 11]"
  by (simp add: upt_rec)

lemma upt3: "[0 ..< 3] = [0, 1, 2]"
  by (simp add: upt_rec)

lemma traced_row10:
  "tracedContours edgeRow10
     = [[(1, 1), (2, 1), (3, 1), (4, 1), (5, 1), (6, 1), (7, 1), (8, 1), (9, 1), (10, 1)]]"
  by (simp add: tracedContours_def edgeRow10_def scanOrder_def upt12 upt3 tracedStep_def
        traceContour_def rd_def byteval_def Let_def)

lemma found_row10: "findContours edgeRow10 = []"
  by (simp add: findContours_def edgeRow10_def scanOrder_def upt12 upt3 findContoursStep_def
        traceContour_def rd_def byteval_def Let_def)

text \<open>
  Counterexample for C9 as stated: on \<open>edgeRow10\<close> the scan traces one contour of
  exactly 10 points, and \<open>findContours\<close> drops it.
\<close>

theorem C9_ten_points_counterexample:
  "tracedContours edgeRow10
     = [[(1, 1), (2, 1), (3, 1), (4, 1), (5, 1), (6, 1), (7, 1), (8, 1), (9, 1), (10, 1)]]
   \<and> findContours edgeRow10 = []"
  using traced_row10 found_row10 by simp

section \<open>Properties of the detectors\<close>

lemma black1_no_contours: "findContours (detectEdges (convertToGrayscale black1)) = []"
  by (simp add: black1_def convertToGrayscale_def detectEdges_def findContours_def scanOrder_def
        findContoursStep_def rd_def byteval_def Let_def)

lemma black1_teeth: "ToothDetector_detect black1 = \<lparr>boundaries = [], count = 0, confidence = 0\<rparr>"
  by (simp add: ToothDetector_detect_def black1_no_contours filterToothContours_def
        calculateConfidence_def)





text \<open>
  C8: on an initialised integration layer, \<open>detectDentalFeatures\<close> returns, for every
  image, a result whose tooth count equals the number of boundaries, whose tooth
  confidence is given by the table (0 teeth: 0; fewer than 4: 0.6; fewer than 8: 0.8;
  otherwise 0.9), and in which the confidence of every sub-result lies in \<open>[0, 1]\<close>.
\<close>

theorem C8_detection_postcondition:
  assumes "isInitialized this"
  shows "\<exists>d this' t g.
           detectDentalFeatures this imageData now = Inr (d, this')
         \<and> teeth d = Some t \<and> gums d = Some g
         \<and> count t = length (boundaries t)
         \<and> confidence t = (if length (boundaries t) = 0 then 0
                            else if length (boundaries t) < 4 then 0.6
                            else if length (boundaries t) < 8 then 0.8
                            else 0.9)
         \<and> 0 \<le> confidence t \<and> confidence t \<le> 1
         \<and> 0 \<le> gum_confidence g \<and> gum_confidence g \<le> 1
         \<and> 0 \<le> zone_confidence (smileZones d) \<and> zone_confidence (smileZones d) \<le> 1
         \<and> 0 \<le> area_confidence (plaque d) \<and> area_confidence (plaque d) \<le> 1
         \<and> 0 \<le> area_confidence (restorations d) \<and> area_confidence (restorations d) \<le> 1"
  using assms
  by (simp add: detectDentalFeatures_def Let_def ToothDetector_detect_def calculateConfidence_def
        GumDetector_detect_def SmileZoneClassifier_classify_def PlaqueDetector_detect_def
        RestorationDetector_detect_def)

text \<open>
  Witness for C8: the initialised layer on the single black pixel returns a result with
  no tooth and tooth confidence 0.
\<close>

theorem C8_detection_postcondition_witness:
  "isInitialized readyLayer
   \<and> (\<exists>d this' t. detectDentalFeatures readyLayer black1 0 = Inr (d, this')
         \<and> teeth d = Some t \<and> count t = length (boundaries t) \<and> confidence t = 0)"
proof -
  have i: "isInitialized readyLayer" by (simp add: readyLayer_def)
  from C8_detection_postcondition [OF i, of black1 0] obtain d this' t g where
    g: "gums d = Some g" and
    r: "detectDentalFeatures readyLayer black1 0 = Inr (d, this')" and
    t: "teeth d = Some t" and c: "count t = length (boundaries t)" by blast
  from r t i have "t = ToothDetector_detect black1"
    by (auto simp: detectDentalFeatures_def Let_def)
  then have "confidence t = 0" by (simp add: black1_teeth)
  with i r t c show ?thesis by blast
qed








section \<open>Properties of the enhancement stages\<close>

subsection \<open>Bytes and clamping\<close>

lemma byteval_range: "0 \<le> byteval w \<and> byteval w \<le> 255"
proof -
  have "unat w < 2 ^ LENGTH(8)" by (rule unsigned_less)
  then have "unat w \<le> 255" by simp
  then have "real (unat w) \<le> 255" by linarith
  moreover have "0 \<le> real (unat w)" by linarith
  moreover have "byteval w = real (unat w)" by (simp add: byteval_def)
  ultimately show ?thesis by presburger
qed

lemma roundHalfEven_bounds: "\<lfloor>x\<rfloor> \<le> roundHalfEven x \<and> roundHalfEven x \<le> \<lfloor>x\<rfloor> + 1"
  by (simp add: roundHalfEven_def Let_def)

lemma byteval_word_of_int:
  assumes "0 \<le> n" and "n \<le> 255"
  shows "byteval (word_of_int n) = real_of_int n"
proof -
  have "uint (word_of_int n :: byte) = take_bit LENGTH(8) n"
    by (simp add: uint_word_of_int_eq)
  also have "\<dots> = n" using assms by (simp add: take_bit_int_eq_self)
  finally have "uint (word_of_int n :: byte) = n" .
  then have "int (unat (word_of_int n :: byte)) = n" by simp
  then show ?thesis unfolding byteval_def by (metis of_int_of_nat_eq)
qed

lemma toUint8Clamp_ge:
  assumes "byteval w \<le> y"
  shows "byteval w \<le> byteval (toUint8Clamp (Num y))"
proof -
  consider "y \<le> 0" | "255 \<le> y" | "0 < y" "y < 255" by linarith
  then show ?thesis
  proof cases
    case 1
    with assms byteval_range [of w] have "byteval w = 0" by linarith
    with 1 show ?thesis by (simp add: byteval_def)
  next
    case 2
    have "byteval (255 :: byte) = 255" by (simp add: byteval_def)
    with 2 byteval_range [of w] show ?thesis by simp
  next
    case 3
    let ?n = "roundHalfEven y"
    have fl: "int (unat w) \<le> \<lfloor>y\<rfloor>"
      using assms by (simp add: byteval_def le_floor_iff)
    have "\<lfloor>y\<rfloor> \<le> 254" using 3 by (simp add: floor_le_iff)
    with roundHalfEven_bounds [of y] fl have n: "0 \<le> ?n" "?n \<le> 255" "int (unat w) \<le> ?n"
      by linarith+
    from n(1,2) have "byteval (word_of_int ?n) = real_of_int ?n" by (rule byteval_word_of_int)
    moreover from n have "byteval w \<le> real_of_int ?n"
      unfolding byteval_def by (metis of_int_le_iff of_int_of_nat_eq)
    ultimately show ?thesis using 3 by simp
  qed
qed

lemma specular_scale_ge_1:
  fixes br factor :: real
  assumes "200 < br" and "factor < 0"
  shows "1 \<le> (br - (br - 200) * (factor * (br - 200) / 55)) / br"
proof -
  have "0 \<le> (br - 200) * (br - 200)" by simp
  with assms have "factor * ((br - 200) * (br - 200)) \<le> 0"
    by (simp add: mult_le_0_iff)
  then have "(br - 200) * (factor * (br - 200)) \<le> 0"
    by (simp add: mult.left_commute)
  then have "(br - 200) * (factor * (br - 200) / 55) \<le> 0"
    by (simp add: divide_le_0_iff)
  then have "br \<le> br - (br - 200) * (factor * (br - 200) / 55)" by simp
  with assms show ?thesis by (simp add: le_divide_eq)
qed

lemma sp240_15: "specularPixel (- 15 / 100) 240 240 240 = (244, 244, 244)"
  by (simp add: specularPixel_def byteval_def Let_def roundHalfEven_def)
lemma sp240_25: "specularPixel (- 25 / 100) 240 240 240 = (247, 247, 247)"
  by (simp add: specularPixel_def byteval_def Let_def roundHalfEven_def)
lemma sp240_30: "specularPixel (- 30 / 100) 240 240 240 = (249, 249, 249)"
  by (simp add: specularPixel_def byteval_def Let_def roundHalfEven_def)

text \<open>The loop body on one pixel: unchanged when dark, no channel lowered when bright.\<close>

lemma specularPixel_direction:
  "((byteval r + byteval g + byteval b) / 3 \<le> 200
      \<longrightarrow> specularPixel (level / 100) r g b = (r, g, b))
   \<and> (200 < (byteval r + byteval g + byteval b) / 3 \<and> level < 0
      \<longrightarrow> (case specularPixel (level / 100) r g b of
            (r', g', b') \<Rightarrow>
              byteval r \<le> byteval r' \<and> byteval g \<le> byteval g' \<and> byteval b \<le> byteval b'))"
proof -
  have dark: "(byteval r + byteval g + byteval b) / 3 \<le> 200
                \<longrightarrow> specularPixel (level / 100) r g b = (r, g, b)"
    by (simp add: specularPixel_def Let_def)
  have bright: "200 < (byteval r + byteval g + byteval b) / 3 \<and> level < 0
      \<longrightarrow> (case specularPixel (level / 100) r g b of
            (r', g', b') \<Rightarrow>
              byteval r \<le> byteval r' \<and> byteval g \<le> byteval g' \<and> byteval b \<le> byteval b')"
  proof
    assume a: "200 < (byteval r + byteval g + byteval b) / 3 \<and> level < 0"
    define br where "br = (byteval r + byteval g + byteval b) / 3"
    define scale where "scale = (br - (br - 200) * (level / 100 * (br - 200) / 55)) / br"
    from a have "200 < br" and "level / 100 < 0" by (simp_all add: br_def)
    then have s: "1 \<le> scale" unfolding scale_def by (rule specular_scale_ge_1)
    have ge: "byteval w \<le> byteval w * scale" for w
      using s byteval_range [of w] by (simp add: mult_le_cancel_left1)
    have sp: "specularPixel (level / 100) r g b
            = (toUint8Clamp (Num (byteval r * scale)), toUint8Clamp (Num (byteval g * scale)),
               toUint8Clamp (Num (byteval b * scale)))"
      using a by (simp add: specularPixel_def Let_def scale_def br_def)
    have "byteval r \<le> byteval (toUint8Clamp (Num (byteval r * scale)))"
      and "byteval g \<le> byteval (toUint8Clamp (Num (byteval g * scale)))"
      and "byteval b \<le> byteval (toUint8Clamp (Num (byteval b * scale)))"
      using ge by (simp_all add: toUint8Clamp_ge del: toUint8Clamp.simps)
    then show "case specularPixel (level / 100) r g b of
            (r', g', b') \<Rightarrow>
              byteval r \<le> byteval r' \<and> byteval g \<le> byteval g' \<and> byteval b \<le> byteval b'"
      by (simp add: sp del: toUint8Clamp.simps)
  qed
  from dark bright show ?thesis by blast
qed

text \<open>The loop of the stage applies the body to every complete pixel and keeps its alpha byte.\<close>

lemma four_bytes:
  assumes "3 < length d"
  shows "\<exists>r g b a rest. d = r # g # b # a # rest"
proof -
  from assms obtain r d1 where 1: "d = r # d1" "2 < length d1" by (cases d) auto
  then obtain g d2 where 2: "d1 = g # d2" "1 < length d2" by (cases d1) auto
  then obtain b d3 where 3: "d2 = b # d3" "0 < length d3" by (cases d2) auto
  then obtain a rest where "d3 = a # rest" by (cases d3) auto
  with 1 2 3 show ?thesis by blast
qed

lemma specularLoop_pixel:
  "4 * k + 3 < length d \<Longrightarrow>
   (specularLoop f d ! (4 * k), specularLoop f d ! (4 * k + 1), specularLoop f d ! (4 * k + 2))
     = specularPixel f (d ! (4 * k)) (d ! (4 * k + 1)) (d ! (4 * k + 2))
   \<and> specularLoop f d ! (4 * k + 3) = d ! (4 * k + 3)"
proof (induction k arbitrary: d)
  case 0
  then obtain r g b a rest where "d = r # g # b # a # rest"
    using four_bytes [of d] by auto
  then show ?case by (simp split: prod.splits)
next
  case (Suc k)
  then obtain r g b a rest where d: "d = r # g # b # a # rest"
    using four_bytes [of d] by auto
  with Suc.prems have "4 * k + 3 < length rest" by simp
  from Suc.IH [OF this] d show ?case
    by (auto simp: add.commute split: prod.splits)
qed


lemma presets_240:
  "applySmartSpecularControl gray240 (- 15) = \<lparr>width = 1, height = 1, data = [244, 244, 244, 255]\<rparr>"
  "applySmartSpecularControl gray240 (- 25) = \<lparr>width = 1, height = 1, data = [247, 247, 247, 255]\<rparr>"
  "applySmartSpecularControl gray240 (- 30) = \<lparr>width = 1, height = 1, data = [249, 249, 249, 255]\<rparr>"
  using sp240_15 sp240_25 sp240_30
  by (simp_all add: applySmartSpecularControl_def gray240_def)

text \<open>
  C10: let \<open>(r, g, b)\<close> be the \<open>k\<close>-th pixel of an image and \<open>(r', g', b')\<close> the
  same pixel after \<open>applySmartSpecularControl\<close> at some level. If the average
  brightness of \<open>(r, g, b)\<close> is at most 200, the pixel is unchanged, at any level. If
  it is above 200 and the level is negative, no channel is lowered, so the brightness
  does not decrease. The built-in presets pass the negative levels -15, -25 and -30, and
  at each of them the pixel \<open>(240, 240, 240)\<close> becomes strictly brighter (244, 247,
  249): a negative level brightens the highlights.
\<close>

theorem C10_specular_direction:
  assumes "4 * k + 3 < length (data img)"
    and "out = data (applySmartSpecularControl img level)"
    and "r = data img ! (4 * k)" and "g = data img ! (4 * k + 1)" and "b = data img ! (4 * k + 2)"
    and "r' = out ! (4 * k)" and "g' = out ! (4 * k + 1)" and "b' = out ! (4 * k + 2)"
  shows "((byteval r + byteval g + byteval b) / 3 \<le> 200 \<longrightarrow> r' = r \<and> g' = g \<and> b' = b)
       \<and> (200 < (byteval r + byteval g + byteval b) / 3 \<and> level < 0
            \<longrightarrow> byteval r \<le> byteval r' \<and> byteval g \<le> byteval g' \<and> byteval b \<le> byteval b'
                \<and> (byteval r + byteval g + byteval b) / 3 \<le> (byteval r' + byteval g' + byteval b') / 3)
       \<and> specular smartEnhanceOptions = Some (- 15)
       \<and> specular dentalModeOptions = Some (- 25)
       \<and> specular clinicalModeOptions = Some (- 30)
       \<and> applySmartSpecularControl gray240 (- 15)
           = \<lparr>width = 1, height = 1, data = [244, 244, 244, 255]\<rparr>
       \<and> applySmartSpecularControl gray240 (- 25)
           = \<lparr>width = 1, height = 1, data = [247, 247, 247, 255]\<rparr>
       \<and> applySmartSpecularControl gray240 (- 30)
           = \<lparr>width = 1, height = 1, data = [249, 249, 249, 255]\<rparr>"
proof -
  have px: "(r', g', b') = specularPixel (level / 100) r g b"
    using specularLoop_pixel [OF assms(1), of "level / 100"] assms(2-8)
    by (simp add: applySmartSpecularControl_def)
  have dark: "(byteval r + byteval g + byteval b) / 3 \<le> 200 \<longrightarrow> r' = r \<and> g' = g \<and> b' = b"
    using specularPixel_direction [of r g b level] px by auto
  have bright: "200 < (byteval r + byteval g + byteval b) / 3 \<and> level < 0
            \<longrightarrow> byteval r \<le> byteval r' \<and> byteval g \<le> byteval g' \<and> byteval b \<le> byteval b'
                \<and> (byteval r + byteval g + byteval b) / 3 \<le> (byteval r' + byteval g' + byteval b') / 3"
    using specularPixel_direction [of r g b level] px by (auto split: prod.splits)
  have presets: "specular smartEnhanceOptions = Some (- 15)"
    "specular dentalModeOptions = Some (- 25)" "specular clinicalModeOptions = Some (- 30)"
    by (simp_all add: smartEnhanceOptions_def dentalModeOptions_def clinicalModeOptions_def)
  from dark bright presets presets_240 show ?thesis by blast
qed

text \<open>
  Witness for C10: the bright gray pixel at level -15.
\<close>

theorem C10_specular_direction_witness:
  "4 * 0 + 3 < length (data gray240)
   \<and> 200 < (byteval (data gray240 ! (4 * 0)) + byteval (data gray240 ! (4 * 0 + 1))
            + byteval (data gray240 ! (4 * 0 + 2))) / 3
   \<and> (- 15 :: real) < 0
   \<and> byteval (data gray240 ! (4 * 0))
       \<le> byteval (data (applySmartSpecularControl gray240 (- 15)) ! (4 * 0))"
proof -
  have l: "4 * 0 + 3 < length (data gray240)" by (simp add: gray240_def)
  have b: "200 < (byteval (data gray240 ! (4 * 0)) + byteval (data gray240 ! (4 * 0 + 1))
                  + byteval (data gray240 ! (4 * 0 + 2))) / 3 \<and> (- 15 :: real) < 0"
    by (simp add: gray240_def byteval_def)
  from C10_specular_direction [where k = 0 and img = gray240 and level = "- 15",
      OF l refl refl refl refl refl refl refl] b
  have "byteval (data gray240 ! (4 * 0))
       \<le> byteval (data (applySmartSpecularControl gray240 (- 15)) ! (4 * 0))"
    by blast
  with l b show ?thesis by blast
qed


subsection \<open>The pipeline with every stage off\<close>

text \<open>
  C6 (as amended): on a well-formed image, when every stage flag is false and,
  moreover, none of the whitening, contrast and noise knobs is positive and the
  specular knob is absent, the pipeline runs no stage: \<open>applySmartEnhancement\<close> returns
  the image unchanged, byte for byte, and applying it again gives the same result.
\<close>

theorem C6_noop_idempotent:
  assumes "valid img"
    and "\<not> smartWhitening opts" and "\<not> adaptiveContrast opts" and "\<not> adaptiveNoise opts"
    and "\<not> smartSpecular opts" and "\<not> colorCorrection opts"
    and "\<not> positive (whitening opts)" and "\<not> positive (contrast opts)"
    and "\<not> positive (noise opts)" and "specular opts = None"
  shows "applySmartEnhancement d img opts = Inr img
         \<and> (\<exists>img'. applySmartEnhancement d img opts = Inr img'
              \<and> applySmartEnhancement d img' opts = applySmartEnhancement d img opts)"
  using assms by (simp add: applySmartEnhancement_def)

lemma gray240_valid: "valid gray240"
  by (simp add: valid_def gray240_def)

text \<open>
  Witness for C6: the bright gray pixel under the options without knobs.
\<close>

theorem C6_noop_idempotent_witness:
  "valid gray240
   \<and> \<not> smartWhitening flagsOffNoKnobs \<and> \<not> adaptiveContrast flagsOffNoKnobs
   \<and> \<not> adaptiveNoise flagsOffNoKnobs \<and> \<not> smartSpecular flagsOffNoKnobs
   \<and> \<not> colorCorrection flagsOffNoKnobs
   \<and> \<not> positive (whitening flagsOffNoKnobs) \<and> \<not> positive (contrast flagsOffNoKnobs)
   \<and> \<not> positive (noise flagsOffNoKnobs) \<and> specular flagsOffNoKnobs = None
   \<and> applySmartEnhancement None gray240 flagsOffNoKnobs = Inr gray240"
proof -
  have f: "\<not> smartWhitening flagsOffNoKnobs" "\<not> adaptiveContrast flagsOffNoKnobs"
    "\<not> adaptiveNoise flagsOffNoKnobs" "\<not> smartSpecular flagsOffNoKnobs"
    "\<not> colorCorrection flagsOffNoKnobs"
    "\<not> positive (whitening flagsOffNoKnobs)" "\<not> positive (contrast flagsOffNoKnobs)"
    "\<not> positive (noise flagsOffNoKnobs)" "specular flagsOffNoKnobs = None"
    by (simp_all add: flagsOffNoKnobs_def)
  from C6_noop_idempotent [OF gray240_valid f, of None]
  have "applySmartEnhancement None gray240 flagsOffNoKnobs = Inr gray240" by blast
  with gray240_valid f show ?thesis by blast
qed

lemma specular_gray240: "specularPixel (- 20 / 100) 240 240 240 = (246, 246, 246)"
  by (simp add: specularPixel_def byteval_def Let_def roundHalfEven_def)

text \<open>
  Counterexample for C6 as stated: with every stage flag false and the four knobs
  present at 0, the specular stage still runs, since the knob is not \<open>undefined\<close>, at
  its default level -20, and the bright gray pixel comes out as \<open>(246, 246, 246)\<close>.
\<close>

theorem C6_flags_off_counterexample:
  "valid gray240
   \<and> \<not> smartWhitening flagsOffZeroKnobs \<and> \<not> adaptiveContrast flagsOffZeroKnobs
   \<and> \<not> adaptiveNoise flagsOffZeroKnobs \<and> \<not> smartSpecular flagsOffZeroKnobs
   \<and> \<not> colorCorrection flagsOffZeroKnobs
   \<and> applySmartEnhancement None gray240 flagsOffZeroKnobs
       = Inr \<lparr>width = 1, height = 1, data = [246, 246, 246, 255]\<rparr>
   \<and> applySmartEnhancement None gray240 flagsOffZeroKnobs \<noteq> Inr gray240"
  using specular_gray240
  by (simp add: applySmartEnhancement_def gray240_valid flagsOffZeroKnobs_def
        applySmartSpecularControl_def)
     (simp add: gray240_def)


subsection \<open>Adaptive contrast\<close>








subsection \<open>The flat white image\<close>

lemma replicate16: "replicate 16 x = [x, x, x, x, x, x, x, x, x, x, x, x, x, x, x, x]"
  by (simp add: eval_nat_numeral)

lemma white4_valid: "valid white4"
  by (simp add: valid_def white4_def replicate16)

lemma white4_gray: "convertToGrayscale white4 = \<lparr>width = 4, height = 4, data = replicate 16 255\<rparr>"
proof -
  have "map toUint8Clamp (grayLoop (data white4)) = replicate 16 255"
    by (simp add: white4_def byteval_def replicate16)
  then show ?thesis by (simp add: convertToGrayscale_def Let_def) (simp add: white4_def)
qed

lemma upto12: "[1 .. (2::int)] = [1, 2]"
  by (simp add: upto.simps)

lemma upto03: "[0 .. (3::int)] = [0, 1, 2, 3]"
  by (simp add: upto.simps)

lemma white4_edge: "1 \<le> y \<Longrightarrow> y \<le> 2 \<Longrightarrow> 1 \<le> x \<Longrightarrow> x \<le> 2 \<Longrightarrow> edgeAt (replicate 16 255) 4 y x = 0"
  by (simp add: edgeAt_def window3_def rd_def byteval_def sobelX_def sobelY_def)

lemma white4_edges:
  "detectEdges \<lparr>width = 4, height = 4, data = replicate 16 255\<rparr>
     = \<lparr>width = 4, height = 4, data = replicate 16 0\<rparr>"
  by (simp add: detectEdges_def Let_def upto12 white4_edge) (simp add: replicate16)

lemma upt4: "[0 ..< 4] = [0, 1, 2, 3]"
  by (simp add: upt_rec)

lemma white4_contours: "findContours \<lparr>width = 4, height = 4, data = replicate 16 0\<rparr> = []"
  by (simp add: findContours_def scanOrder_def findContoursStep_def rd_def byteval_def Let_def upt4)

lemma white4_teeth: "ToothDetector_detect white4 = \<lparr>boundaries = [], count = 0, confidence = 0\<rparr>"
  by (simp add: ToothDetector_detect_def white4_gray white4_edges white4_contours
        filterToothContours_def calculateConfidence_def)

lemma white_not_gum: "\<not> isGumColor 255 255 255"
  by (simp add: isGumColor_def rgbToHue_def rgbToSaturation_def Let_def)

lemma white_pixelTest:
  assumes "\<forall>v\<in>set d. v = 255"
  shows "\<not> pixelTest isGumColor d i"
proof -
  have "rd d j = None \<or> rd d j = Some 255" for j
  proof (cases "0 \<le> j \<and> j < int (length d)")
    case True
    then have "nat j < length d" by (simp add: nat_less_iff)
    then have "d ! nat j \<in> set d" by (rule nth_mem)
    with assms have "d ! nat j = 255" by blast
    moreover from True have "rd d j = Some (byteval (d ! nat j))" by (simp add: rd_def)
    ultimately show ?thesis by (simp add: byteval_def)
  next
    case False
    then show ?thesis by (auto simp: rd_def)
  qed
  from this [of i] this [of "i + 1"] this [of "i + 2"] show ?thesis
    by (auto simp: pixelTest_def white_not_gum)
qed

lemma white4_gumPoints: "gumPoints white4 = []"
proof -
  have "\<forall>v\<in>set (data white4). v = 255" by (simp add: white4_def)
  then show ?thesis by (simp add: gumPoints_def white_pixelTest)
qed

lemma white4_gums: "GumDetector_detect white4 = \<lparr>line = None, gum_confidence = 0.85\<rparr>"
  by (simp add: GumDetector_detect_def detectGumLine_def fitGumLine_def white4_gumPoints)

lemma white_not_tooth: "\<not> isToothPixel 255 255 255"
  by (simp add: isToothPixel_def rgbToHsv_def Let_def)

lemma white_whitenPixel: "whitenPixel f 255 255 255 = Inr (255, 255, 255)"
  by (simp add: whitenPixel_def byteval_def white_not_tooth)

lemma white4_whitening: "applySmartWhitening white4 s = Inr white4"
  by (simp add: applySmartWhitening_def white4_def replicate16 white_whitenPixel)

lemma color_throws: "applyColorCorrection img = Inl (ReferenceError ''data'')"
  by (simp add: applyColorCorrection_def calculateWhiteBalance_def findGrayPoint_def Let_def)

lemma white4_contrast: "applyAdaptiveContrast None white4 25 = black4"
  by (simp add: applyAdaptiveContrast_def createEnhancementRegions_def white4_def black4_def
        replicate16 applyRegionalContrast_def bounds_contrastFactor_def
        contrastPixel_def contrastChannel_def rd_def wr_def byteval_def Let_def
        upto03 js_sub_def)


lemma black4_noisePixel:
  "noisePixel (data black4) 4 f 1 (data black4) 1 = data black4"
  "noisePixel (data black4) 4 f 1 (data black4) 2 = data black4"
  "noisePixel (data black4) 4 f 2 (data black4) 1 = data black4"
  "noisePixel (data black4) 4 f 2 (data black4) 2 = data black4"
  by (simp_all add: noisePixel_def bilateralValue_def black4_def replicate16 window3_def rd_def
        wr_def byteval_def)

lemma black4_dims: "width black4 = 4" "height black4 = 4"
  by (simp_all add: black4_def)

lemma black4_noise: "applyAdaptiveNoiseReduction black4 s = black4"
  by (simp add: applyAdaptiveNoiseReduction_def Let_def black4_dims upto12 black4_noisePixel)

lemma black4_specular: "applySmartSpecularControl black4 l = black4"
  by (simp add: applySmartSpecularControl_def black4_def replicate16 specularPixel_def byteval_def)

text \<open>
  C1 (the code at the failing input): on the flat white image of 4 by 4 pixels the
  detection finds no tooth and no gum line. \<open>applySmartEnhance\<close> without a detection
  result does not return an image: the colour correction throws a ReferenceError in
  \<open>calculateWhiteBalance\<close>. With the colour correction switched off and the other
  settings of the preset kept, the output is the black image, not the input: the
  contrast stage multiplies by an \<open>undefined\<close> contrast factor and stores NaN, that
  is 0, in every colour byte.
\<close>

theorem C1_white_image:
  "(\<exists>d this' t g.
       detectDentalFeatures \<lparr>isInitialized = True, detectionResults = None\<rparr> white4 now = Inr (d, this')
     \<and> teeth d = Some t \<and> count t = 0 \<and> gums d = Some g \<and> line g = None)
   \<and> applySmartEnhance None white4 = Inl (ReferenceError ''data'')
   \<and> applySmartEnhancement None white4 (smartEnhanceOptions\<lparr>colorCorrection := False\<rparr>) = Inr black4"
proof -
  have "\<exists>d this' t g.
       detectDentalFeatures \<lparr>isInitialized = True, detectionResults = None\<rparr> white4 now = Inr (d, this')
     \<and> teeth d = Some t \<and> count t = 0 \<and> gums d = Some g \<and> line g = None"
    by (simp add: detectDentalFeatures_def Let_def white4_teeth white4_gums)
  moreover have "applySmartEnhance None white4 = Inl (ReferenceError ''data'')"
    by (simp add: applySmartEnhance_def applySmartEnhancement_def white4_valid
          smartEnhanceOptions_def white4_whitening color_throws)
  moreover have "applySmartEnhancement None white4 (smartEnhanceOptions\<lparr>colorCorrection := False\<rparr>)
                   = Inr black4"
    by (simp add: applySmartEnhancement_def white4_valid smartEnhanceOptions_def
          white4_whitening white4_contrast black4_noise black4_specular)
  ultimately show ?thesis by blast
qed


end
